theory Spec2Isabelle
  imports Complex_Main "HOL-Library.List_Lexorder" "HOL-Library.Char_ord"
    "HOL-Library.Product_Lexorder" "HOL-Library.Multiset"
begin

section \<open>Values\<close>

text \<open>
  \<^verbatim>\<open>main.py\<close> is a FastHTML application over two SQLite tables. Its handlers pass Python
  values to SQL statements, so the embedding has two layers of values: the Python values a
  handler computes and the values a table cell holds.

  A Python \<^verbatim>\<open>float\<close> is a finite number, an infinity or NaN. A finite float is modelled by
  an exact rational, and \<^verbatim>\<open>-0.0\<close> is not told apart from \<^verbatim>\<open>0.0\<close>. The model is exact
  where the program rounds to the nearest double: \<^verbatim>\<open>float('0.1')\<close> is 1/10 here, a literal
  too large for a double stays finite, one too small stays different from zero. The
  values are parsed, compared with zero, rounded to hundredths and stored; no sum,
  difference or product of them is modelled.
\<close>

datatype pyfloat = Fin rat | PInf | NInf | NaN

text \<open>The comparisons \<^verbatim>\<open>x < 0\<close> and \<^verbatim>\<open>x >= 0\<close>; both are false of NaN.\<close>

fun py_lt0 :: "pyfloat \<Rightarrow> bool" where
  "py_lt0 (Fin r) = (r < 0)"
| "py_lt0 NInf = True"
| "py_lt0 PInf = False"
| "py_lt0 NaN = False"

fun py_ge0 :: "pyfloat \<Rightarrow> bool" where
  "py_ge0 (Fin r) = (0 \<le> r)"
| "py_ge0 PInf = True"
| "py_ge0 NInf = False"
| "py_ge0 NaN = False"

text \<open>
  \<^verbatim>\<open>round(float(v), 2)\<close>, the validator of \<^verbatim>\<open>ShoppingItem.cost\<close> and of
  \<^verbatim>\<open>BudgetUpdate.amount\<close>: the exact value rounded to hundredths, a tie to the even
  neighbour; an infinity or NaN is returned as it is. Python rounds the double, so on a
  decimal tie such as 2.675, whose double lies below the tie, it gives 2.67 where this
  function gives 2.68; away from ties the two agree.
\<close>

definition round_half_even :: "rat \<Rightarrow> int" where
  "round_half_even x =
     (let f = \<lfloor>x\<rfloor>; d = x - of_int f
      in if d < 1 / 2 then f else if 1 / 2 < d then f + 1
         else if even f then f else f + 1)"

fun py_round2 :: "pyfloat \<Rightarrow> pyfloat" where
  "py_round2 (Fin r) = Fin (of_int (round_half_even (r * 100)) / 100)"
| "py_round2 x = x"

text \<open>
  A table cell holds a value of one of SQLite's storage classes (no statement of the
  program writes a BLOB). A REAL is never NaN: SQLite turns NaN into NULL.
\<close>

datatype sqlval = SNull | SInt int | SReal pyfloat | SText string

text \<open>The values a handler binds to the \<^verbatim>\<open>?\<close> placeholders of a statement.\<close>

datatype pyval = PyNone | PyInt int | PyFloat pyfloat | PyStr string

datatype sqlite_error =
    OperationalError   \<comment> \<open>the statement does not compile, or the row ids are used up\<close>
  | IntegrityError     \<comment> \<open>NOT NULL, CHECK, PRIMARY KEY or datatype mismatch\<close>

datatype py_exception = OverflowError | TypeError | ValueError

definition int64 :: "int \<Rightarrow> bool" where
  "int64 i = (- (2 ^ 63) \<le> i \<and> i < 2 ^ 63)"

text \<open>
  Binding a parameter: the \<^verbatim>\<open>sqlite3\<close> module raises \<^verbatim>\<open>OverflowError\<close> for an
  \<^verbatim>\<open>int\<close> outside 64 bits, and SQLite stores a NaN as NULL.
\<close>

fun bind :: "pyval \<Rightarrow> py_exception + sqlval" where
  "bind PyNone = Inr SNull"
| "bind (PyInt i) = (if int64 i then Inr (SInt i) else Inl OverflowError)"
| "bind (PyFloat NaN) = Inr SNull"
| "bind (PyFloat x) = Inr (SReal x)"
| "bind (PyStr s) = Inr (SText s)"

section \<open>Strings and number syntax\<close>

text \<open>
  Strings are byte strings; the model follows Python and SQLite on ASCII text. The
  whitespace of \<^verbatim>\<open>str.strip\<close>, \<^verbatim>\<open>int\<close> and \<^verbatim>\<open>float\<close> is the ASCII part of
  \<^verbatim>\<open>str.isspace\<close>; SQLite's is \<^verbatim>\<open>sqlite3Isspace\<close>.
\<close>

definition py_isspace :: "char \<Rightarrow> bool" where
  "py_isspace c = (c \<in> set [CHR 0x09, CHR 0x0A, CHR 0x0B, CHR 0x0C, CHR 0x0D,
                             CHR 0x1C, CHR 0x1D, CHR 0x1E, CHR 0x1F, CHR 0x20])"

definition sqlite_isspace :: "char \<Rightarrow> bool" where
  "sqlite_isspace c = (c \<in> set [CHR 0x09, CHR 0x0A, CHR 0x0B, CHR 0x0C, CHR 0x0D, CHR 0x20])"

definition strip :: "string \<Rightarrow> string" where
  "strip s = rev (dropWhile py_isspace (rev (dropWhile py_isspace s)))"

text \<open>\<^verbatim>\<open>s.replace(c, "")\<close> for a one-character \<^verbatim>\<open>c\<close>: every occurrence goes.\<close>

definition replace_char :: "char \<Rightarrow> string \<Rightarrow> string" where
  "replace_char c s = filter (\<lambda>x. x \<noteq> c) s"

definition ascii_lower :: "char \<Rightarrow> char" where
  "ascii_lower c =
     (let n = (of_char c :: nat) in if 65 \<le> n \<and> n \<le> 90 then char_of (n + 32) else c)"

definition lower :: "string \<Rightarrow> string" where
  "lower s = map ascii_lower s"

definition digit_of :: "char \<Rightarrow> nat option" where
  "digit_of c =
     (let n = (of_char c :: nat) in if 48 \<le> n \<and> n \<le> 57 then Some (n - 48) else None)"

definition nat_of_digits :: "nat list \<Rightarrow> nat" where
  "nat_of_digits ds = foldl (\<lambda>a d. 10 * a + d) 0 ds"

fun take_sign :: "string \<Rightarrow> bool \<times> string" where
  "take_sign [] = (False, [])"
| "take_sign (c # cs) =
     (if c = CHR ''-'' then (True, cs) else if c = CHR ''+'' then (False, cs)
      else (False, c # cs))"

text \<open>A run of digits, as SQLite reads it.\<close>

fun take_digits :: "string \<Rightarrow> nat list \<times> string" where
  "take_digits [] = ([], [])"
| "take_digits (c # cs) =
     (case digit_of c of
        None \<Rightarrow> ([], c # cs)
      | Some d \<Rightarrow> (case take_digits cs of (ds, r) \<Rightarrow> (d # ds, r)))"

text \<open>
  Python's \<^verbatim>\<open>digitpart\<close>: digits, with a single underscore allowed between two digits.
  \<open>py_digits_tail\<close> reads what follows a digit.
\<close>

fun py_digits_tail :: "string \<Rightarrow> nat list \<times> string" where
  "py_digits_tail [] = ([], [])"
| "py_digits_tail [c] =
     (case digit_of c of None \<Rightarrow> ([], [c]) | Some d \<Rightarrow> ([d], []))"
| "py_digits_tail (c # c' # cs) =
     (case digit_of c of
        Some d \<Rightarrow> (case py_digits_tail (c' # cs) of (ds, r) \<Rightarrow> (d # ds, r))
      | None \<Rightarrow>
          (if c = CHR ''_'' then
             (case digit_of c' of
                Some d \<Rightarrow> (case py_digits_tail cs of (ds, r) \<Rightarrow> (d # ds, r))
              | None \<Rightarrow> ([], c # c' # cs))
           else ([], c # c' # cs)))"

definition py_digits :: "string \<Rightarrow> nat list \<times> string" where
  "py_digits s =
     (case s of
        [] \<Rightarrow> ([], [])
      | c # cs \<Rightarrow>
          (case digit_of c of
             None \<Rightarrow> ([], s)
           | Some d \<Rightarrow> (case py_digits_tail cs of (ds, r) \<Rightarrow> (d # ds, r))))"

definition scale10 :: "rat \<Rightarrow> int \<Rightarrow> rat" where
  "scale10 x e = (if 0 \<le> e then x * 10 ^ nat e else x / 10 ^ nat (- e))"

definition signed :: "bool \<Rightarrow> int \<Rightarrow> int" where
  "signed neg n = (if neg then - n else n)"

text \<open>
  \<^verbatim>\<open>int(s)\<close> for a string: surrounding whitespace, a sign, a digitpart. \<open>None\<close> is
  \<^verbatim>\<open>ValueError\<close>. (The limit on the number of digits that recent interpreters put on
  the conversion is not modelled.)
\<close>

definition py_int :: "string \<Rightarrow> int option" where
  "py_int s =
     (case take_sign (strip s) of
        (neg, u) \<Rightarrow>
          (case py_digits u of
             (ds, r) \<Rightarrow>
               if ds \<noteq> [] \<and> r = [] then Some (signed neg (int (nat_of_digits ds)))
               else None))"

text \<open>
  \<^verbatim>\<open>float(s)\<close> for a string: surrounding whitespace, a sign, then \<^verbatim>\<open>inf\<close>,
  \<^verbatim>\<open>infinity\<close> or \<^verbatim>\<open>nan\<close> in any case, or a decimal number with an optional
  fraction and exponent. \<open>None\<close> is \<^verbatim>\<open>ValueError\<close>.
\<close>

definition py_exponent :: "string \<Rightarrow> int option" where
  "py_exponent s =
     (case s of
        [] \<Rightarrow> Some 0
      | c # r \<Rightarrow>
          if c = CHR ''e'' \<or> c = CHR ''E'' then
            (case take_sign r of
               (neg, r1) \<Rightarrow>
                 (case py_digits r1 of
                    (ds, r2) \<Rightarrow>
                      if ds \<noteq> [] \<and> r2 = [] then Some (signed neg (int (nat_of_digits ds)))
                      else None))
          else None)"

definition py_floatnumber :: "string \<Rightarrow> rat option" where
  "py_floatnumber u =
     (case py_digits u of
        (ip, s3) \<Rightarrow>
          (case (case s3 of
                   [] \<Rightarrow> ([], s3)
                 | c # r \<Rightarrow> if c = CHR ''.'' then py_digits r else ([], s3)) of
             (fp, s4) \<Rightarrow>
               if ip = [] \<and> fp = [] then None
               else
                 (case py_exponent s4 of
                    None \<Rightarrow> None
                  | Some e \<Rightarrow>
                      Some (scale10 (of_nat (nat_of_digits (ip @ fp)))
                              (e - int (length fp))))))"

definition py_float :: "string \<Rightarrow> pyfloat option" where
  "py_float s =
     (case take_sign (strip s) of
        (neg, u) \<Rightarrow>
          if lower u = ''inf'' \<or> lower u = ''infinity'' then Some (if neg then NInf else PInf)
          else if lower u = ''nan'' then Some NaN
          else
            (case py_floatnumber u of
               None \<Rightarrow> None
             | Some r \<Rightarrow> Some (Fin (if neg then - r else r))))"


definition ascii_upper :: "char \<Rightarrow> char" where
  "ascii_upper c =
     (let n = (of_char c :: nat) in if 97 \<le> n \<and> n \<le> 122 then char_of (n - 32) else c)"

definition is_alpha :: "char \<Rightarrow> bool" where
  "is_alpha c = (let n = (of_char c :: nat) in (65 \<le> n \<and> n \<le> 90) \<or> (97 \<le> n \<and> n \<le> 122))"

text \<open>\<^verbatim>\<open>str.title\<close>: a letter after a letter is lowered, any other letter is raised.\<close>

fun title_from :: "bool \<Rightarrow> string \<Rightarrow> string" where
  "title_from prev [] = []"
| "title_from prev (c # cs) =
     (if prev then ascii_lower c else ascii_upper c) # title_from (is_alpha c) cs"

definition title :: "string \<Rightarrow> string" where
  "title s = title_from False s"

section \<open>SQLite: numbers in text, affinity, expressions\<close>

datatype sqlnum = NInt int | NReal pyfloat

text \<open>
  The number a text begins with, and the rest of the text: leading whitespace, a sign,
  digits with an optional fraction, an optional exponent. An integer literal that does
  not fit 64 bits is a REAL.
\<close>

definition sql_exponent :: "string \<Rightarrow> int option \<times> string" where
  "sql_exponent s =
     (case s of
        [] \<Rightarrow> (None, s)
      | c # r \<Rightarrow>
          if c = CHR ''e'' \<or> c = CHR ''E'' then
            (case take_sign r of
               (neg, r1) \<Rightarrow>
                 (case take_digits r1 of
                    (ds, r2) \<Rightarrow>
                      if ds = [] then (None, s)
                      else (Some (signed neg (int (nat_of_digits ds))), r2)))
          else (None, s))"

definition sql_scan :: "string \<Rightarrow> (sqlnum \<times> string) option" where
  "sql_scan s =
     (case take_sign (dropWhile sqlite_isspace s) of
        (neg, s2) \<Rightarrow>
          (case take_digits s2 of
             (ip, s3) \<Rightarrow>
               (case (case s3 of
                        [] \<Rightarrow> (False, [], s3)
                      | c # r \<Rightarrow>
                          if c = CHR ''.'' then
                            (case take_digits r of (fp, r') \<Rightarrow> (True, fp, r'))
                          else (False, [], s3)) of
                  (dot, fp, s4) \<Rightarrow>
                    if ip = [] \<and> fp = [] then None
                    else
                      (case sql_exponent s4 of
                         (ex, s5) \<Rightarrow>
                           (let i = signed neg (int (nat_of_digits ip));
                                m = of_nat (nat_of_digits (ip @ fp));
                                x = scale10 (if neg then - m else m)
                                      ((case ex of None \<Rightarrow> 0 | Some e \<Rightarrow> e) - int (length fp))
                            in if \<not> dot \<and> ex = None \<and> int64 i then Some (NInt i, s5)
                               else Some (NReal (Fin x), s5))))))"

text \<open>A text is a well-formed number when nothing but whitespace follows the number.\<close>

definition sql_number_of_text :: "string \<Rightarrow> sqlnum option" where
  "sql_number_of_text t =
     (case sql_scan t of
        None \<Rightarrow> None
      | Some (n, r) \<Rightarrow> if list_all sqlite_isspace r then Some n else None)"

text \<open>A REAL that is an integer of 64 bits is stored as that INTEGER in an INTEGER column.\<close>

fun integer_if_exact :: "pyfloat \<Rightarrow> sqlval" where
  "integer_if_exact (Fin r) =
     (if of_int \<lfloor>r\<rfloor> = r \<and> int64 \<lfloor>r\<rfloor> then SInt \<lfloor>r\<rfloor> else SReal (Fin r))"
| "integer_if_exact x = SReal x"

text \<open>
  Column affinity, applied to a value on its way into a cell. INTEGER affinity (columns
  \<^verbatim>\<open>quantity\<close> and \<^verbatim>\<open>found\<close>) turns a text that is a well-formed number into that
  number and keeps any other text as text; REAL affinity (column \<^verbatim>\<open>cost\<close>) does the
  same and stores every number as a REAL.
\<close>

fun integer_affinity :: "sqlval \<Rightarrow> sqlval" where
  "integer_affinity (SText t) =
     (case sql_number_of_text t of
        None \<Rightarrow> SText t
      | Some (NInt i) \<Rightarrow> SInt i
      | Some (NReal x) \<Rightarrow> integer_if_exact x)"
| "integer_affinity (SReal x) = integer_if_exact x"
| "integer_affinity v = v"

fun real_affinity :: "sqlval \<Rightarrow> sqlval" where
  "real_affinity (SText t) =
     (case sql_number_of_text t of
        None \<Rightarrow> SText t
      | Some (NInt i) \<Rightarrow> SReal (Fin (of_int i))
      | Some (NReal x) \<Rightarrow> SReal x)"
| "real_affinity (SInt i) = SReal (Fin (of_int i))"
| "real_affinity v = v"

text \<open>
  The number an expression sees in a value: a text counts as the number it begins with,
  or 0. \<open>None\<close> is NULL.
\<close>

fun sql_numeric :: "sqlval \<Rightarrow> sqlnum option" where
  "sql_numeric SNull = None"
| "sql_numeric (SInt i) = Some (NInt i)"
| "sql_numeric (SReal x) = Some (NReal x)"
| "sql_numeric (SText t) = (case sql_scan t of None \<Rightarrow> Some (NInt 0) | Some (n, r) \<Rightarrow> Some n)"

fun num_is_zero :: "sqlnum \<Rightarrow> bool" where
  "num_is_zero (NInt i) = (i = 0)"
| "num_is_zero (NReal x) = (x = Fin 0)"

text \<open>\<^verbatim>\<open>NOT v\<close>: NULL for NULL, 1 for a zero, 0 for any other number.\<close>

definition sql_not :: "sqlval \<Rightarrow> sqlval" where
  "sql_not v =
     (case sql_numeric v of
        None \<Rightarrow> SNull
      | Some n \<Rightarrow> SInt (if num_is_zero n then 1 else 0))"

text \<open>
  The comparison \<^verbatim>\<open>v >= 0\<close> of the two CHECK constraints: NULL for NULL, numeric for a
  number, and true for a text, which sorts after every number.
\<close>

fun sql_ge0 :: "sqlval \<Rightarrow> bool option" where
  "sql_ge0 SNull = None"
| "sql_ge0 (SInt i) = Some (0 \<le> i)"
| "sql_ge0 (SReal x) = Some (py_ge0 x)"
| "sql_ge0 (SText t) = Some True"

text \<open>A CHECK constraint fails only when its expression is false.\<close>

definition check_ge0 :: "sqlval \<Rightarrow> bool" where
  "check_ge0 v = (sql_ge0 v \<noteq> Some False)"

text \<open>
  The key of \<^verbatim>\<open>ORDER BY\<close> on a value: NULL first, then the numbers in numeric order,
  then the texts in byte order. The same key orders Python's \<^verbatim>\<open>None\<close>, numbers and
  strings among themselves.
\<close>

fun order_key :: "sqlval \<Rightarrow> nat \<times> (nat \<times> rat) \<times> string" where
  "order_key SNull = (0, (0, 0), [])"
| "order_key (SInt i) = (1, (1, of_int i), [])"
| "order_key (SReal (Fin r)) = (1, (1, r), [])"
| "order_key (SReal NInf) = (1, (0, 0), [])"
| "order_key (SReal PInf) = (1, (2, 0), [])"
| "order_key (SReal NaN) = (0, (0, 0), [])"
| "order_key (SText t) = (2, (0, 0), t)"


section \<open>The database\<close>

text \<open>
  \<^verbatim>\<open>setup_database\<close> creates two tables. In \<^verbatim>\<open>shopping_list\<close> the columns
  \<^verbatim>\<open>category\<close>, \<^verbatim>\<open>item\<close>, \<^verbatim>\<open>store\<close> (TEXT NOT NULL) and \<^verbatim>\<open>notes\<close> (TEXT) only
  ever receive strings or NULL, so they are typed as such; \<^verbatim>\<open>quantity\<close>, \<^verbatim>\<open>cost\<close> and
  \<^verbatim>\<open>found\<close> hold whatever their affinity makes of the value bound to them. Both tables
  are AUTOINCREMENT: the database remembers the largest row id it has given out.
\<close>

record item_row =
  row_id :: int
  category :: string
  item :: string
  quantity :: sqlval
  cost :: sqlval
  "notes" :: "string option"
  found :: sqlval
  store :: string

record budget_row =
  budget_id :: int
  amount :: pyfloat

record database =
  shopping_list :: "item_row list"
  shopping_list_seq :: int
  budget :: "budget_row list"
  budget_seq :: int

datatype 'a outcome =
    Done 'a
  | SqliteError sqlite_error
  | Raised py_exception
  | NotModelled   \<comment> \<open>a statement text or a binding this model does not interpret\<close>

datatype column = Cid | Ccategory | Citem | Cquantity | Ccost | Cnotes | Cfound | Cstore

text \<open>
  The next row id of an AUTOINCREMENT table: one more than the largest id in the table
  and the largest id given out before; the insert fails when that is the last 64-bit id.
\<close>

definition new_rowid :: "int list \<Rightarrow> int \<Rightarrow> int option" where
  "new_rowid ids seq =
     (let m = fold max ids seq in if 2 ^ 63 - 1 \<le> m then None else Some (m + 1))"

subsection \<open>\<^verbatim>\<open>INSERT INTO budget (amount) VALUES (?)\<close>\<close>

definition insert_budget :: "pyfloat \<Rightarrow> database \<Rightarrow> database outcome" where
  "insert_budget x db =
     (case bind (PyFloat x) of
        Inl e \<Rightarrow> Raised e
      | Inr v \<Rightarrow>
          (case new_rowid (map budget_id (budget db)) (budget_seq db) of
             None \<Rightarrow> SqliteError OperationalError
           | Some i \<Rightarrow>
               (case real_affinity v of
                  SReal y \<Rightarrow>
                    if check_ge0 (SReal y) then
                      Done (db\<lparr>budget := budget db @ [\<lparr>budget_id = i, amount = y\<rparr>],
                                budget_seq := i\<rparr>)
                    else SqliteError IntegrityError
                | _ \<Rightarrow> SqliteError IntegrityError)))"

subsection \<open>\<^verbatim>\<open>INSERT INTO shopping_list (category, item, quantity, cost, notes, store)\<close>\<close>

text \<open>The column \<^verbatim>\<open>found\<close> takes its default, 0.\<close>

definition insert_item ::
  "string \<Rightarrow> string \<Rightarrow> int \<Rightarrow> pyfloat \<Rightarrow> string option \<Rightarrow> string \<Rightarrow> database \<Rightarrow> database outcome"
where
  "insert_item cat it qty cst nts sto db =
     (case (bind (PyInt qty), bind (PyFloat cst)) of
        (Inl e, _) \<Rightarrow> Raised e
      | (_, Inl e) \<Rightarrow> Raised e
      | (Inr q, Inr c) \<Rightarrow>
          (case new_rowid (map row_id (shopping_list db)) (shopping_list_seq db) of
             None \<Rightarrow> SqliteError OperationalError
           | Some i \<Rightarrow>
               (let q' = integer_affinity q; c' = real_affinity c
                in if q' = SNull \<or> c' = SNull \<or> \<not> check_ge0 q' \<or> \<not> check_ge0 c'
                   then SqliteError IntegrityError
                   else Done (db\<lparr>shopping_list := shopping_list db @
                                   [\<lparr>row_id = i, category = cat, item = it, quantity = q',
                                     cost = c', notes = nts, found = SInt 0, store = sto\<rparr>],
                                 shopping_list_seq := i\<rparr>))))"

subsection \<open>\<^verbatim>\<open>UPDATE shopping_list SET {field} = ? WHERE id = ?\<close>\<close>

text \<open>
  The handler pastes the field name into the statement. A name made of letters, digits
  and underscores is modelled: it names a column (in any case, \<^verbatim>\<open>rowid\<close>, \<^verbatim>\<open>oid\<close> and
  \<^verbatim>\<open>_rowid_\<close> being other names of \<^verbatim>\<open>id\<close>) or the statement does not compile. Any
  other text could be SQL of its own and is outside the model.
\<close>

definition is_word :: "string \<Rightarrow> bool" where
  "is_word f =
     (f \<noteq> [] \<and> list_all (\<lambda>c. is_alpha c \<or> digit_of c \<noteq> None \<or> c = CHR ''_'') f)"

definition resolve_column :: "string \<Rightarrow> column option" where
  "resolve_column f =
     (let l = lower f in
      if l = ''id'' \<or> l = ''rowid'' \<or> l = ''oid'' \<or> l = ''_rowid_'' then Some Cid
      else if l = ''category'' then Some Ccategory
      else if l = ''item'' then Some Citem
      else if l = ''quantity'' then Some Cquantity
      else if l = ''cost'' then Some Ccost
      else if l = ''notes'' then Some Cnotes
      else if l = ''found'' then Some Cfound
      else if l = ''store'' then Some Cstore
      else None)"

text \<open>
  One row gets the bound value in one column: the column's affinity is applied, then NOT
  NULL, the CHECK constraints and the primary key are enforced. The handlers bind numbers
  only to \<^verbatim>\<open>quantity\<close> and \<^verbatim>\<open>cost\<close>; a number bound to a TEXT column is not modelled.
\<close>

fun text_cell :: "sqlval \<Rightarrow> string option outcome" where
  "text_cell (SText s) = Done (Some s)"
| "text_cell SNull = Done None"
| "text_cell v = NotModelled"

definition not_null_text :: "sqlval \<Rightarrow> (string \<Rightarrow> item_row) \<Rightarrow> item_row outcome" where
  "not_null_text v upd =
     (case text_cell v of
        Done (Some s) \<Rightarrow> Done (upd s)
      | Done None \<Rightarrow> SqliteError IntegrityError
      | SqliteError e \<Rightarrow> SqliteError e
      | Raised e \<Rightarrow> Raised e
      | NotModelled \<Rightarrow> NotModelled)"

fun store_cell :: "item_row list \<Rightarrow> column \<Rightarrow> sqlval \<Rightarrow> item_row \<Rightarrow> item_row outcome" where
  "store_cell tbl Ccategory v r = not_null_text v (\<lambda>s. r\<lparr>category := s\<rparr>)"
| "store_cell tbl Citem v r = not_null_text v (\<lambda>s. r\<lparr>item := s\<rparr>)"
| "store_cell tbl Cstore v r = not_null_text v (\<lambda>s. r\<lparr>store := s\<rparr>)"
| "store_cell tbl Cnotes v r =
     (case text_cell v of
        Done n \<Rightarrow> Done (r\<lparr>notes := n\<rparr>)
      | SqliteError e \<Rightarrow> SqliteError e
      | Raised e \<Rightarrow> Raised e
      | NotModelled \<Rightarrow> NotModelled)"
| "store_cell tbl Cquantity v r =
     (let q = integer_affinity v
      in if q = SNull \<or> \<not> check_ge0 q then SqliteError IntegrityError
         else Done (r\<lparr>quantity := q\<rparr>))"
| "store_cell tbl Ccost v r =
     (let c = real_affinity v
      in if c = SNull \<or> \<not> check_ge0 c then SqliteError IntegrityError
         else Done (r\<lparr>cost := c\<rparr>))"
| "store_cell tbl Cfound v r = Done (r\<lparr>found := integer_affinity v\<rparr>)"
| "store_cell tbl Cid v r =
     (case integer_affinity v of
        SInt i \<Rightarrow>
          if i \<noteq> row_id r \<and> i \<in> set (map row_id tbl) then SqliteError IntegrityError
          else Done (r\<lparr>row_id := i\<rparr>)
      | _ \<Rightarrow> SqliteError IntegrityError)"

text \<open>
  The rows \<^verbatim>\<open>WHERE id = ?\<close> are rewritten; the first row that fails aborts the
  statement, and nothing is written.
\<close>

fun update_rows :: "(item_row \<Rightarrow> item_row outcome) \<Rightarrow> int \<Rightarrow> item_row list \<Rightarrow> item_row list outcome"
where
  "update_rows f i [] = Done []"
| "update_rows f i (r # rs) =
     (case (if row_id r = i then f r else Done r) of
        Done r' \<Rightarrow>
          (case update_rows f i rs of
             Done rs' \<Rightarrow> Done (r' # rs')
           | SqliteError e \<Rightarrow> SqliteError e
           | Raised e \<Rightarrow> Raised e
           | NotModelled \<Rightarrow> NotModelled)
      | SqliteError e \<Rightarrow> SqliteError e
      | Raised e \<Rightarrow> Raised e
      | NotModelled \<Rightarrow> NotModelled)"

definition execute_update :: "string \<Rightarrow> pyval \<Rightarrow> int \<Rightarrow> database \<Rightarrow> database outcome" where
  "execute_update field v item_id db =
     (case resolve_column field of
        None \<Rightarrow> if is_word field then SqliteError OperationalError else NotModelled
      | Some col \<Rightarrow>
          (case (bind v, bind (PyInt item_id)) of
             (Inl e, _) \<Rightarrow> Raised e
           | (_, Inl e) \<Rightarrow> Raised e
           | (Inr sv, Inr _) \<Rightarrow>
               (case update_rows (store_cell (shopping_list db) col sv) item_id
                       (shopping_list db) of
                  Done rows \<Rightarrow> Done (db\<lparr>shopping_list := rows\<rparr>)
                | SqliteError e \<Rightarrow> SqliteError e
                | Raised e \<Rightarrow> Raised e
                | NotModelled \<Rightarrow> NotModelled)))"

subsection \<open>\<^verbatim>\<open>UPDATE shopping_list SET found = NOT found WHERE id = ?\<close>\<close>

definition execute_toggle :: "int \<Rightarrow> database \<Rightarrow> database outcome" where
  "execute_toggle item_id db =
     (case bind (PyInt item_id) of
        Inl e \<Rightarrow> Raised e
      | Inr _ \<Rightarrow>
          Done (db\<lparr>shopping_list :=
                     map (\<lambda>r. if row_id r = item_id
                               then r\<lparr>found := integer_affinity (sql_not (found r))\<rparr> else r)
                       (shopping_list db)\<rparr>))"

subsection \<open>\<^verbatim>\<open>DELETE FROM shopping_list WHERE id = ?\<close>\<close>

definition execute_delete :: "int \<Rightarrow> database \<Rightarrow> database outcome" where
  "execute_delete item_id db =
     (case bind (PyInt item_id) of
        Inl e \<Rightarrow> Raised e
      | Inr _ \<Rightarrow>
          Done (db\<lparr>shopping_list := filter (\<lambda>r. row_id r \<noteq> item_id) (shopping_list db)\<rparr>))"


section \<open>Queries\<close>

text \<open>
  The connection is taken to open and the tables to exist, so the \<^verbatim>\<open>except sqlite3.Error\<close>
  branches of the queries are not reached. \<^verbatim>\<open>get_total_cost\<close> and the budget card
  \<^verbatim>\<open>BudgetStatus\<close> are not modelled: they are arithmetic on doubles (the products and
  the \<^verbatim>\<open>SUM\<close> of SQLite, the subtraction of Python), which exact rationals do not follow.

  \<^verbatim>\<open>get_budget\<close>: \<^verbatim>\<open>SELECT amount FROM budget ORDER BY id DESC LIMIT 1\<close>, and 0.0 when
  there is no row.
\<close>

definition get_budget :: "database \<Rightarrow> pyfloat" where
  "get_budget db =
     (case sort_key (\<lambda>r. - budget_id r) (budget db) of
        [] \<Rightarrow> Fin 0
      | r # _ \<Rightarrow> amount r)"

text \<open>
  \<^verbatim>\<open>fetch_shopping_list\<close>: the rows \<^verbatim>\<open>ORDER BY found ASC, category ASC, id DESC\<close>, then
  grouped by category in a dict, which keeps its keys in the order of their first
  insertion.
\<close>

definition dict_append ::
  "string \<Rightarrow> item_row \<Rightarrow> (string \<times> item_row list) list \<Rightarrow> (string \<times> item_row list) list"
where
  "dict_append k v d =
     (if k \<in> set (map fst d)
      then map (\<lambda>(k', vs). if k' = k then (k', vs @ [v]) else (k', vs)) d
      else d @ [(k, [v])])"

definition fetch_shopping_list :: "database \<Rightarrow> (string \<times> item_row list) list" where
  "fetch_shopping_list db =
     (let items = sort_key (\<lambda>r. (order_key (found r), category r, - row_id r))
                    (shopping_list db)
      in foldl (\<lambda>categories it. dict_append (category it) it categories) [] items)"

section \<open>Components\<close>

datatype fragment =
    EmptyState                                      \<comment> \<open>\<^verbatim>\<open>No items yet!\<close>\<close>
  | ShoppingList "(string \<times> item_row list) list"    \<comment> \<open>the category sections, with their cards\<close>

text \<open>
  \<^verbatim>\<open>sorted(items, key=lambda x: (x['found'], -x['id']))\<close>: Python orders numbers among
  themselves and strings among themselves, and raises \<^verbatim>\<open>TypeError\<close> when it has to
  compare values of two kinds.
\<close>

fun py_kind :: "sqlval \<Rightarrow> nat" where
  "py_kind SNull = 0"
| "py_kind (SInt i) = 1"
| "py_kind (SReal x) = 1"
| "py_kind (SText t) = 2"

definition sorted_items :: "item_row list \<Rightarrow> py_exception + item_row list" where
  "sorted_items items =
     (case items of
        [] \<Rightarrow> Inr []
      | x # xs \<Rightarrow>
          if list_all (\<lambda>y. py_kind (found y) = py_kind (found x)) xs
          then Inr (sort_key (\<lambda>x. (order_key (found x), - row_id x)) items)
          else Inl TypeError)"

text \<open>
  The checkbox of a card is \<^verbatim>\<open>checked=bool(item['found'])\<close>, and a card whose
  \<^verbatim>\<open>item['found']\<close> is true has the class \<^verbatim>\<open>found-item\<close>: Python's truth value of the
  cell.
\<close>

fun py_bool :: "sqlval \<Rightarrow> bool" where
  "py_bool SNull = False"
| "py_bool (SInt i) = (i \<noteq> 0)"
| "py_bool (SReal x) = (x \<noteq> Fin 0)"
| "py_bool (SText t) = (t \<noteq> [])"

text \<open>
  A card formats the cost with \<^verbatim>\<open>:.2f\<close>, which raises for a string and for \<^verbatim>\<open>None\<close>.
  The cards are modelled by the rows they show.
\<close>

fun format_cost :: "sqlval \<Rightarrow> py_exception option" where
  "format_cost (SText t) = Some ValueError"
| "format_cost SNull = Some TypeError"
| "format_cost v = None"

fun category_items :: "item_row list \<Rightarrow> py_exception + item_row list" where
  "category_items [] = Inr []"
| "category_items (x # xs) =
     (case format_cost (cost x) of
        Some e \<Rightarrow> Inl e
      | None \<Rightarrow> (case category_items xs of Inl e \<Rightarrow> Inl e | Inr cs \<Rightarrow> Inr (x # cs)))"

fun mobile_cards ::
  "(string \<times> item_row list) list \<Rightarrow> py_exception + (string \<times> item_row list) list"
where
  "mobile_cards [] = Inr []"
| "mobile_cards ((cat, items) # rest) =
     (case sorted_items items of
        Inl e \<Rightarrow> Inl e
      | Inr si \<Rightarrow>
          (case category_items si of
             Inl e \<Rightarrow> Inl e
           | Inr cs \<Rightarrow>
               (case mobile_cards rest of
                  Inl e \<Rightarrow> Inl e
                | Inr secs \<Rightarrow> Inr ((cat, cs) # secs))))"

text \<open>
  \<^verbatim>\<open>ShoppingTable\<close>: the placeholder for an empty dict, else one section for each
  category, \<^verbatim>\<open>for category, items in sorted(categories.items())\<close>.
\<close>

definition ShoppingTable :: "(string \<times> item_row list) list \<Rightarrow> py_exception + fragment" where
  "ShoppingTable categories =
     (if categories = [] then Inr EmptyState
      else (case mobile_cards (sort_key fst categories) of
              Inl e \<Rightarrow> Inl e
            | Inr secs \<Rightarrow> Inr (ShoppingList secs)))"

section \<open>Request handlers\<close>

text \<open>
  A handler takes the database and returns what it answers and the database it leaves.
  An exception that no \<^verbatim>\<open>except\<close> clause catches ends the request with a server error;
  when it is raised while the answer is rendered, the statement has been committed.
\<close>

datatype response =
    ShoppingContainer fragment
  | AddItemResult fragment                  \<comment> \<open>the container and the emptied modal\<close>
  | ContentContainer fragment               \<comment> \<open>the whole page, the budget card left out\<close>
  | ErrorMessage string                     \<comment> \<open>\<^verbatim>\<open>Div(..., cls="error-message")\<close>\<close>
  | ValidationError                         \<comment> \<open>pydantic refuses the form\<close>
  | ServerError py_exception
  | SqlNotModelled

definition render_list :: "(fragment \<Rightarrow> response) \<Rightarrow> database \<Rightarrow> response" where
  "render_list wrap db =
     (case ShoppingTable (fetch_shopping_list db) of
        Inl e \<Rightarrow> ServerError e
      | Inr f \<Rightarrow> wrap f)"

definition respond ::
  "string \<Rightarrow> (database \<Rightarrow> response) \<Rightarrow> database \<Rightarrow> database outcome \<Rightarrow> response \<times> database"
where
  "respond failure render db result =
     (case result of
        Done db' \<Rightarrow> (render db', db')
      | SqliteError e \<Rightarrow> (ErrorMessage failure, db)
      | Raised e \<Rightarrow> (ServerError e, db)
      | NotModelled \<Rightarrow> (SqlNotModelled, db))"

text \<open>\<^verbatim>\<open>GET /\<close>.\<close>

definition home :: "database \<Rightarrow> response" where
  "home db = render_list ContentContainer db"

text \<open>
  The submitted form of \<^verbatim>\<open>POST /add_item\<close>, as the fields of class \<^verbatim>\<open>ShoppingItem\<close>
  that the handler reads; the class constrains \<^verbatim>\<open>quantity\<close> and \<^verbatim>\<open>cost\<close> with
  \<^verbatim>\<open>Field(ge=0)\<close> and rounds the cost.
\<close>

record ShoppingItem =
  form_category :: string
  form_item :: string
  form_quantity :: int
  form_cost :: pyfloat
  form_notes :: "string option"
  form_store :: string

definition validate_cost :: "pyfloat \<Rightarrow> pyfloat" where
  "validate_cost v = py_round2 v"

definition validate_ShoppingItem :: "ShoppingItem \<Rightarrow> ShoppingItem option" where
  "validate_ShoppingItem f =
     (if form_quantity f < 0 then None
      else if \<not> py_ge0 (form_cost f) then None
      else Some (f\<lparr>form_cost := validate_cost (form_cost f)\<rparr>))"

definition add_item :: "ShoppingItem \<Rightarrow> database \<Rightarrow> response \<times> database" where
  "add_item form db =
     (case validate_ShoppingItem form of
        None \<Rightarrow> (ValidationError, db)
      | Some it \<Rightarrow>
          respond ''Failed to add item'' (render_list AddItemResult) db
            (insert_item (form_category it) (form_item it) (form_quantity it) (form_cost it)
               (form_notes it) (form_store it) db))"

text \<open>\<^verbatim>\<open>POST /update/budget/amount\<close>.\<close>

definition update_budget_inline :: "string \<Rightarrow> database \<Rightarrow> response \<times> database" where
  "update_budget_inline v db =
     (case py_float (strip (replace_char CHR ''$'' v)) of
        None \<Rightarrow> (ErrorMessage ''Invalid budget amount. Please enter a valid number.'', db)
      | Some b \<Rightarrow>
          if py_lt0 b then (ErrorMessage ''Budget cannot be negative'', db)
          else respond ''Failed to update the budget due to a database error.''
                 (render_list ContentContainer) db
                 (insert_budget b db))"

text \<open>\<^verbatim>\<open>POST /set_budget\<close>.\<close>

definition update_budget :: "pyfloat \<Rightarrow> database \<Rightarrow> response \<times> database" where
  "update_budget b db =
     (if py_lt0 b then (ErrorMessage ''Budget cannot be negative'', db)
      else respond ''Failed to update budget'' (render_list ShoppingContainer) db
             (insert_budget b db))"

text \<open>\<^verbatim>\<open>POST /toggle_found/{item_id}\<close>.\<close>

definition toggle_found :: "int \<Rightarrow> database \<Rightarrow> response \<times> database" where
  "toggle_found item_id db =
     respond ''Failed to update item status'' (render_list ShoppingContainer) db
       (execute_toggle item_id db)"

text \<open>\<^verbatim>\<open>POST /remove_item/{item_id}\<close>.\<close>

definition remove_item :: "int \<Rightarrow> database \<Rightarrow> response \<times> database" where
  "remove_item item_id db =
     respond ''Failed to remove item'' (render_list ShoppingContainer) db
       (execute_delete item_id db)"

text \<open>
  \<^verbatim>\<open>POST /update/{item_id}/{field}\<close>. \<open>checked_value\<close> is the \<^verbatim>\<open>try\<close> block of the
  numeric fields: the parsed value, or the message of the error fragment.
\<close>

fun py_negative :: "pyval \<Rightarrow> bool" where
  "py_negative (PyInt i) = (i < 0)"
| "py_negative (PyFloat x) = py_lt0 x"
| "py_negative v = False"

definition checked_value :: "string \<Rightarrow> string \<Rightarrow> string + pyval" where
  "checked_value field v =
     (case (if field = ''cost''
            then map_option PyFloat (py_float (strip (replace_char CHR ''$'' v)))
            else map_option PyInt (py_int v)) of
        None \<Rightarrow> Inl (''Invalid '' @ field @ '' format'')
      | Some n \<Rightarrow>
          if py_negative n then Inl (title field @ '' cannot be negative'') else Inr n)"

definition update_field :: "int \<Rightarrow> string \<Rightarrow> string \<Rightarrow> database \<Rightarrow> response \<times> database" where
  "update_field item_id field v db =
     (if strip v = [] then (ErrorMessage (title field @ '' cannot be empty''), db)
      else
        (case (if field \<in> set [''quantity'', ''cost''] then checked_value field v
               else Inr (PyStr v)) of
           Inl msg \<Rightarrow> (ErrorMessage msg, db)
         | Inr v' \<Rightarrow>
             respond ''Failed to update value'' (render_list ShoppingContainer) db
               (execute_update field v' item_id db)))"


section \<open>The database at startup\<close>

text \<open>
  At every start \<^verbatim>\<open>setup_database\<close> drops and recreates the tables and inserts the
  budget 1000.00, and \<^verbatim>\<open>populate_sample_data\<close> fills the empty list with its 29 items.
\<close>

definition sample_row ::
  "int \<Rightarrow> string \<Rightarrow> string \<Rightarrow> int \<Rightarrow> rat \<Rightarrow> string \<Rightarrow> string \<Rightarrow> item_row" where
  "sample_row i cat it qty cst nts sto =
     \<lparr>row_id = i, category = cat, item = it, quantity = SInt qty, cost = SReal (Fin cst),
      notes = Some nts, found = SInt 0, store = sto\<rparr>"

definition sample_items :: "item_row list" where
  "sample_items =
     [
      sample_row 1 ''Spray Equipment'' ''Paint sprayer (airless)'' 1 40
        ''Consider renting if one-time use, rental price per day'' ''Home Depot'',
      sample_row 2 ''Spray Equipment'' ''Spray tips'' 3 20
        ''Different sizes for walls vs. trim'' ''Home Depot'',
      sample_row 3 ''Spray Equipment'' ''Extension wand'' 1 30
        ''For reaching high areas'' ''Home Depot'',
      sample_row 4 ''Spray Equipment'' ''Filters'' 6 5
        ''Replace as needed'' ''Home Depot'',
      sample_row 5 ''Spray Equipment'' ''Hose'' 1 25
        ''Usually comes with sprayer'' ''Home Depot'',
      sample_row 6 ''Paint'' ''Interior latex paint'' 10 (375 / 10)
        ''Account for overspray, $25-$50/gal'' ''Lowe's'',
      sample_row 7 ''Paint'' ''Primer'' 8 30
        ''If needed, $20-$40/gal'' ''Lowe's'',
      sample_row 8 ''Paint'' ''Paint strainer'' 6 2
        ''To prevent sprayer clogs'' ''Lowe's'',
      sample_row 9 ''Protection'' ''Plastic sheeting'' 5 10
        ''Cover EVERYTHING'' ''Walmart'',
      sample_row 10 ''Protection'' ''Painter's tape'' 10 5
        ''More needed for spray painting'' ''Walmart'',
      sample_row 11 ''Protection'' ''Rosin paper'' 3 15
        ''Floor protection'' ''Home Depot'',
      sample_row 12 ''Protection'' ''Drop cloths'' 6 15
        ''Heavy-duty type'' ''Home Depot'',
      sample_row 13 ''Safety Equipment'' ''Full respirator'' 1 30
        ''Not just dust masks'' ''Lowe's'',
      sample_row 14 ''Safety Equipment'' ''Safety goggles'' 2 10
        ''Sealed type'' ''Lowe's'',
      sample_row 15 ''Safety Equipment'' ''Spray sock/head cover'' 3 5
        ''Protect hair/head'' ''Lowe's'',
      sample_row 16 ''Safety Equipment'' ''Disposable coveralls'' 3 10
        ''Full body protection'' ''Lowe's'',
      sample_row 17 ''Safety Equipment'' ''Heavy duty gloves'' 2 8
        ''Per pair'' ''Lowe's'',
      sample_row 18 ''Surface Prep'' ''Sandpaper'' 1 10
        ''Various grits: 120, 180, 220'' ''Walmart'',
      sample_row 19 ''Surface Prep'' ''Spackle'' 1 8
        ''For repairs'' ''Walmart'',
      sample_row 20 ''Surface Prep'' ''TSP cleaner'' 1 10
        ''Wall preparation'' ''Walmart'',
      sample_row 21 ''Surface Prep'' ''Putty knife set'' 1 15
        ''Various sizes'' ''Walmart'',
      sample_row 22 ''Clean-up'' ''5-gallon buckets'' 3 5
        ''For clean-up'' ''Home Depot'',
      sample_row 23 ''Clean-up'' ''Paint thinner'' 2 15
        ''For equipment cleaning'' ''Home Depot'',
      sample_row 24 ''Clean-up'' ''Clean rags'' 1 10
        ''Large pack'' ''Walmart'',
      sample_row 25 ''Tools'' ''Multi-position ladder'' 1 150
        ''For stairwell and high areas'' ''Lowe's'',
      sample_row 26 ''Tools'' ''Step ladder'' 1 50
        ''For standard height walls'' ''Lowe's'',
      sample_row 27 ''Tools'' ''Screwdrivers'' 1 20
        ''Set for fixtures/plates'' ''Walmart'',
      sample_row 28 ''Tools'' ''Utility knife'' 1 10
        ''With extra blades'' ''Walmart'',
      sample_row 29 ''Tools'' ''Light extension cord'' 2 15
        ''For sprayer'' ''Walmart''
     ]"

definition initial_database :: database where
  "initial_database =
     \<lparr>shopping_list = sample_items, shopping_list_seq = 29,
      budget = [\<lparr>budget_id = 1, amount = Fin 1000\<rparr>], budget_seq = 1\<rparr>"

section \<open>Vocabulary of the properties\<close>

text \<open>
  The database after the rows with a given id have been rewritten, and the answer of a
  handler that has written: the re-rendered list and the new database.
\<close>

definition rewrite_rows :: "int \<Rightarrow> (item_row \<Rightarrow> item_row) \<Rightarrow> database \<Rightarrow> database" where
  "rewrite_rows i g db =
     db\<lparr>shopping_list := map (\<lambda>r. if row_id r = i then g r else r) (shopping_list db)\<rparr>"

definition updated :: "database \<Rightarrow> response \<times> database" where
  "updated db' = (render_list ShoppingContainer db', db')"

text \<open>
  The order of the items of one category: no found item (flag 1) before an unfound one
  (flag 0), and among items with the same flag the larger id first.
\<close>

definition unfound_first_id_desc :: "item_row list \<Rightarrow> bool" where
  "unfound_first_id_desc xs =
     sorted_wrt (\<lambda>a b. \<not> (found a = SInt 1 \<and> found b = SInt 0) \<and>
                        (found a = found b \<longrightarrow> row_id b < row_id a)) xs"

text \<open>
  The dict that \<^verbatim>\<open>fetch_shopping_list\<close> has built from a list of rows: one key for each
  category among them, with the rows of that category in the order of the list.
\<close>

definition groups_of :: "item_row list \<Rightarrow> (string \<times> item_row list) list \<Rightarrow> bool" where
  "groups_of rows d =
     (distinct (map fst d) \<and> fst ` set d = category ` set rows \<and>
      (\<forall>(k, xs)\<in>set d. xs = filter (\<lambda>r. category r = k) rows))"

section \<open>Properties\<close>

subsection \<open>Responses and the database they leave\<close>

lemma respond_Done: "respond failure render db (Done db') = (render db', db')"
  by (simp add: respond_def)

lemma snd_respond:
  "snd (respond failure render db result) = (case result of Done db' \<Rightarrow> db' | _ \<Rightarrow> db)"
  by (simp add: respond_def split: outcome.splits)

subsection \<open>Blank values\<close>




subsection \<open>Toggling twice\<close>

lemma toggle_twice_row:
  assumes "found r = SInt 0 \<or> found r = SInt 1"
  shows "r\<lparr>found := integer_affinity (sql_not (integer_affinity (sql_not (found r))))\<rparr> = r"
  using assms by (auto simp: sql_not_def)

text \<open>
  Claim C8. Take a stored item whose \<^verbatim>\<open>found\<close> flag is 0 or 1 and post
  \<^verbatim>\<open>/toggle_found/{id}\<close> twice with its id. The table has as many rows as before, the
  item is back in its original state (its flag and every other field), every row with
  another id is as it was, and the budget table is untouched.
\<close>

theorem toggle_found_twice:
  assumes "i < length (shopping_list db)"
    and "found (shopping_list db ! i) = SInt 0 \<or> found (shopping_list db ! i) = SInt 1"
  shows "let db2 = snd (toggle_found (row_id (shopping_list db ! i))
                     (snd (toggle_found (row_id (shopping_list db ! i)) db)))
         in length (shopping_list db2) = length (shopping_list db) \<and>
            shopping_list db2 ! i = shopping_list db ! i \<and>
            (\<forall>j < length (shopping_list db).
               row_id (shopping_list db ! j) \<noteq> row_id (shopping_list db ! i) \<longrightarrow>
               shopping_list db2 ! j = shopping_list db ! j) \<and>
            budget db2 = budget db"
  using assms toggle_twice_row [of "shopping_list db ! i"]
  by (cases "int64 (row_id (shopping_list db ! i))")
     (simp_all add: toggle_found_def snd_respond execute_toggle_def Let_def)

theorem toggle_found_twice_witness:
  "0 < length (shopping_list initial_database) \<and>
   found (shopping_list initial_database ! 0) = SInt 0 \<and>
   row_id (shopping_list initial_database ! 0) = 1 \<and>
   shopping_list (snd (toggle_found 1 (snd (toggle_found 1 initial_database)))) ! 0 =
     shopping_list initial_database ! 0"
proof -
  have l: "0 < length (shopping_list initial_database)"
    by (simp add: initial_database_def sample_items_def)
  have f: "found (shopping_list initial_database ! 0) = SInt 0 \<or>
           found (shopping_list initial_database ! 0) = SInt 1"
    by (simp add: initial_database_def sample_items_def sample_row_def)
  have i: "row_id (shopping_list initial_database ! 0) = 1"
    by (simp add: initial_database_def sample_items_def sample_row_def)
  have f0: "found (shopping_list initial_database ! 0) = SInt 0"
    by (simp add: initial_database_def sample_items_def sample_row_def)
  from toggle_found_twice [OF l f] l f0 i show ?thesis
    by (simp add: Let_def)
qed

subsection \<open>The budget log\<close>

lemma fold_max_ge: "(s::int) \<le> fold max xs s \<and> (\<forall>x\<in>set xs. x \<le> fold max xs s)"
proof (induction xs arbitrary: s)
  case Nil show ?case by simp
next
  case (Cons a xs)
  from Cons [of "max a s"] show ?case by auto
qed

lemma new_rowid_fresh:
  assumes "new_rowid ids seq = Some i"
  shows "\<forall>x\<in>set ids. x < i"
  using assms fold_max_ge [of seq ids]
  by (auto simp: new_rowid_def Let_def split: if_splits)

lemma sort_key_head:
  assumes "sort_key f xs = y # ys"
  shows "y \<in> set xs \<and> (\<forall>x\<in>set xs. f y \<le> f x)"
proof -
  have s: "sorted (map f (sort_key f xs))" by (rule sorted_sort_key)
  have e: "set (sort_key f xs) = set xs" by simp
  from e assms have "y \<in> set xs" by (metis list.set_intros(1))
  moreover from s assms e have "\<forall>x\<in>set xs. f y \<le> f x"
    by (metis eq_iff image_eqI list.simps(9) set_ConsD set_map sorted_simps(2) list.set_map)
  ultimately show ?thesis by blast
qed

lemma get_budget_latest:
  "(budget db = [] \<longrightarrow> get_budget db = Fin 0) \<and>
   (budget db \<noteq> [] \<longrightarrow>
      (\<exists>r\<in>set (budget db). get_budget db = amount r \<and>
         (\<forall>r'\<in>set (budget db). budget_id r' \<le> budget_id r)))"
proof (cases "sort_key (\<lambda>r. - budget_id r) (budget db)")
  case Nil
  then have "budget db = []" by (metis length_sort length_0_conv)
  then show ?thesis by (simp add: get_budget_def)
next
  case (Cons y ys)
  from sort_key_head [OF Cons] Cons show ?thesis
    by (auto simp: get_budget_def)
qed

text \<open>
  Claim C3. For an amount \<open>a \<ge> 0\<close>, \<^verbatim>\<open>POST /set_budget\<close> appends one record to the
  budget table and leaves the records before it (and the shopping list) as they were,
  provided the table still has a row id to give; the new record has the highest id, so
  it is the current budget. \<^verbatim>\<open>get_budget\<close> returns the amount of the record with the
  highest id, and 0.0 when the table is empty.
\<close>

theorem set_budget_appends:
  assumes "py_ge0 a"
    and "new_rowid (map budget_id (budget db)) (budget_seq db) = Some i"
  shows "budget (snd (update_budget a db)) = budget db @ [\<lparr>budget_id = i, amount = a\<rparr>] \<and>
         shopping_list (snd (update_budget a db)) = shopping_list db \<and>
         (\<forall>r\<in>set (budget db). budget_id r < i) \<and>
         get_budget (snd (update_budget a db)) = a \<and>
         (budget db = [] \<longrightarrow> get_budget db = Fin 0) \<and>
         (budget db \<noteq> [] \<longrightarrow>
            (\<exists>r\<in>set (budget db). get_budget db = amount r \<and>
               (\<forall>r'\<in>set (budget db). budget_id r' \<le> budget_id r)))"
proof -
  let ?db' = "db\<lparr>budget := budget db @ [\<lparr>budget_id = i, amount = a\<rparr>], budget_seq := i\<rparr>"
  from assms(1) have nn: "\<not> py_lt0 a" and ck: "check_ge0 (SReal a)" and nan: "a \<noteq> NaN"
    by (cases a; simp add: check_ge0_def)+
  from nan have b: "bind (PyFloat a) = Inr (SReal a)" by (cases a) simp_all
  have ins: "insert_budget a db = Done ?db'"
    using assms(2) b ck by (simp add: insert_budget_def)
  have snd: "snd (update_budget a db) = ?db'"
    using nn ins by (simp add: update_budget_def snd_respond)
  have fresh: "\<forall>r\<in>set (budget db). budget_id r < i"
    using new_rowid_fresh [OF assms(2)] by simp
  have cur: "get_budget ?db' = a"
  proof -
    have "budget ?db' \<noteq> []" by simp
    with get_budget_latest [of ?db'] have
      "\<exists>r\<in>set (budget ?db'). get_budget ?db' = amount r \<and>
         (\<forall>r'\<in>set (budget ?db'). budget_id r' \<le> budget_id r)"
      by blast
    then obtain r where
      r: "r \<in> set (budget ?db')" "get_budget ?db' = amount r"
         "\<forall>r'\<in>set (budget ?db'). budget_id r' \<le> budget_id r"
      by blast
    from r(3) have "i \<le> budget_id r" by simp
    with r(1) fresh have "r = \<lparr>budget_id = i, amount = a\<rparr>" by auto
    with r(2) show ?thesis by simp
  qed
  from snd fresh cur get_budget_latest [of db] show ?thesis by simp
qed

lemma new_rowid_initial: "new_rowid (map budget_id (budget initial_database)) (budget_seq initial_database) = Some 2"
  by (simp add: initial_database_def new_rowid_def)

theorem set_budget_appends_witness:
  "py_ge0 (Fin 500) \<and>
   budget (snd (update_budget (Fin 500) initial_database)) =
     [\<lparr>budget_id = 1, amount = Fin 1000\<rparr>, \<lparr>budget_id = 2, amount = Fin 500\<rparr>] \<and>
   get_budget (snd (update_budget (Fin 500) initial_database)) = Fin 500 \<and>
   get_budget initial_database = Fin 1000"
proof -
  have a: "py_ge0 (Fin 500)" by simp
  have g: "get_budget initial_database = Fin 1000"
    by (simp add: get_budget_def initial_database_def)
  from set_budget_appends [OF a new_rowid_initial] a g show ?thesis
    by (simp add: initial_database_def)
qed

subsection \<open>The field name\<close>

lemma resolve_quantity_cost:
  "resolve_column ''quantity'' = Some Cquantity" "resolve_column ''cost'' = Some Ccost"
  by code_simp+

text \<open>
  Claim C5, as the code has it. \<^verbatim>\<open>update_field\<close> does not compare the field name with
  a set of names: it pastes the name into the \<^verbatim>\<open>UPDATE\<close> statement. For a name of
  letters, digits and underscores that names no column of \<^verbatim>\<open>shopping_list\<close> the
  statement does not compile: the answer is the error fragment and nothing is written.
  A name of a column is acted on, whether the specification lists it or not.
\<close>

theorem update_field_no_such_column:
  assumes "is_word field" and "resolve_column field = None"
  shows "update_field item_id field v db =
           (ErrorMessage (if strip v = [] then title field @ '' cannot be empty''
                          else ''Failed to update value''), db)"
proof -
  from assms(2) resolve_quantity_cost have "field \<noteq> ''quantity''" "field \<noteq> ''cost''"
    by auto
  with assms show ?thesis
    by (simp add: update_field_def execute_update_def respond_def)
qed

theorem update_field_no_such_column_witness:
  "is_word ''price'' \<and> resolve_column ''price'' = None \<and>
   update_field 1 ''price'' ''5'' initial_database =
     (ErrorMessage ''Failed to update value'', initial_database)"
proof -
  have w: "is_word ''price''" by code_simp
  have r: "resolve_column ''price'' = None" by code_simp
  have s: "strip ''5'' \<noteq> []" by code_simp
  from update_field_no_such_column [OF w r, of 1 "''5''" initial_database] w r s
  show ?thesis by simp
qed

text \<open>
  The claim as the specification states it fails: \<^verbatim>\<open>id\<close> is outside the listed set and
  \<^verbatim>\<open>POST /update/1/id\<close> with the value \<^verbatim>\<open>100\<close> runs
  \<^verbatim>\<open>UPDATE shopping_list SET id = ? WHERE id = ?\<close>, which renumbers the first item.
\<close>

theorem update_field_id_counterexample:
  "''id'' \<notin> set [''category'', ''item'', ''quantity'', ''cost'', ''notes'', ''store'', ''found''] \<and>
   row_id (hd (shopping_list initial_database)) = 1 \<and>
   row_id (hd (shopping_list (snd (update_field 1 ''id'' ''100'' initial_database)))) = 100"
proof -
  have s: "strip ''100'' \<noteq> []" by code_simp
  have r: "resolve_column ''id'' = Some Cid" by code_simp
  have a: "integer_affinity (SText ''100'') = SInt 100" by code_simp
  have i: "int64 1" by (simp add: int64_def)
  show ?thesis
    using s r a i
    by (simp add: update_field_def execute_update_def snd_respond initial_database_def
        sample_items_def sample_row_def)
qed


subsection \<open>Rounding\<close>

text \<open>
  Claim C6 fails on the code. \<^verbatim>\<open>add_item\<close> stores the cost that \<^verbatim>\<open>validate_cost\<close> has
  rounded, but \<^verbatim>\<open>update_field\<close> stores \<^verbatim>\<open>float(value)\<close> as it is, and both budget
  handlers insert the submitted amount as it is (class \<^verbatim>\<open>BudgetUpdate\<close>, whose validator
  rounds the amount, is used by no handler). On the startup database the cost 1.239 and
  the budget 1.239 are stored unrounded, where rounding to two digits gives 1.24.
\<close>

theorem cost_and_budget_stored_unrounded:
  "cost (hd (shopping_list (snd (update_field 1 ''cost'' ''1.239'' initial_database)))) =
     SReal (Fin (1239 / 1000)) \<and>
   amount (last (budget (snd (update_budget (Fin (1239 / 1000)) initial_database)))) =
     Fin (1239 / 1000) \<and>
   amount (last (budget (snd (update_budget_inline ''1.239'' initial_database)))) =
     Fin (1239 / 1000) \<and>
   py_round2 (Fin (1239 / 1000)) = Fin (124 / 100)"
proof -
  have s: "strip ''1.239'' \<noteq> []" by code_simp
  have p: "py_float (strip (replace_char CHR ''$'' ''1.239'')) = Some (Fin (1239 / 1000))"
    by code_simp
  have r: "resolve_column ''cost'' = Some Ccost" by code_simp
  have i: "int64 1" by (simp add: int64_def)
  have t: "title ''cost'' = ''Cost''" by code_simp
  have u: "cost (hd (shopping_list (snd (update_field 1 ''cost'' ''1.239'' initial_database)))) =
     SReal (Fin (1239 / 1000))"
    using s p r i
    by (simp add: update_field_def checked_value_def execute_update_def snd_respond
        initial_database_def sample_items_def sample_row_def check_ge0_def)
  have n: "new_rowid (map budget_id (budget initial_database)) (budget_seq initial_database) = Some 2"
    by (simp add: initial_database_def new_rowid_def)
  have b: "insert_budget (Fin (1239 / 1000)) initial_database =
             Done (initial_database\<lparr>budget := budget initial_database @
                     [\<lparr>budget_id = 2, amount = Fin (1239 / 1000)\<rparr>], budget_seq := 2\<rparr>)"
    using n by (simp add: insert_budget_def check_ge0_def)
  have b1: "amount (last (budget (snd (update_budget (Fin (1239 / 1000)) initial_database)))) =
     Fin (1239 / 1000)"
    using b by (simp add: update_budget_def snd_respond)
  have b2: "amount (last (budget (snd (update_budget_inline ''1.239'' initial_database)))) =
     Fin (1239 / 1000)"
    using b p by (simp add: update_budget_inline_def snd_respond)
  have rd: "py_round2 (Fin (1239 / 1000)) = Fin (124 / 100)"
    by code_simp
  from u b1 b2 rd show ?thesis by blast
qed


subsection \<open>What an update writes\<close>

lemma update_rows_Done:
  assumes "\<And>r. f r = Done (g r)"
  shows "update_rows f i rows = Done (map (\<lambda>r. if row_id r = i then g r else r) rows)"
  by (induction rows) (simp_all add: assms)

lemma execute_update_Done:
  assumes "resolve_column field = Some col" and "bind v = Inr sv" and "int64 item_id"
    and "\<And>r. store_cell (shopping_list db) col sv r = Done (g r)"
  shows "execute_update field v item_id db = Done (rewrite_rows item_id g db)"
  using assms(1-3) update_rows_Done [of "store_cell (shopping_list db) col sv" g, OF assms(4)]
  by (simp add: execute_update_def rewrite_rows_def)

lemma resolve_known:
  "resolve_column ''category'' = Some Ccategory" "resolve_column ''item'' = Some Citem"
  "resolve_column ''notes'' = Some Cnotes" "resolve_column ''store'' = Some Cstore"
  "resolve_column ''found'' = Some Cfound" "resolve_column ''quantity'' = Some Cquantity"
  "resolve_column ''cost'' = Some Ccost"
  by code_simp+

lemma update_field_string:
  assumes "strip v \<noteq> []" and "int64 item_id" and "field \<noteq> ''quantity''" and "field \<noteq> ''cost''"
    and "resolve_column field = Some col"
    and "\<And>r. store_cell (shopping_list db) col (SText v) r = Done (g r)"
  shows "update_field item_id field v db = updated (rewrite_rows item_id g db)"
  using assms(1,3,4) execute_update_Done [OF assms(5) _ assms(2), of "PyStr v" "SText v" db g, OF _ assms(6)]
  by (simp add: update_field_def respond_Done updated_def)






lemma hd_rewrite_initial:
  "hd (shopping_list (rewrite_rows 1 g initial_database)) = g (hd (shopping_list initial_database))"
  by (simp add: rewrite_rows_def initial_database_def sample_items_def sample_row_def)








subsection \<open>Negative quantities\<close>

text \<open>
  Claim C2 fails on the code. The schema puts \<^verbatim>\<open>CHECK (quantity >= 0)\<close> and
  \<^verbatim>\<open>CHECK (cost >= 0)\<close> on the table, and \<^verbatim>\<open>update_field\<close> refuses a negative number
  for the fields \<^verbatim>\<open>quantity\<close> and \<^verbatim>\<open>cost\<close>; but it compares the field name with these
  two strings, and SQLite reads a column name in any case. \<^verbatim>\<open>POST /update/1/Quantity\<close>
  with the value \<^verbatim>\<open>-5abc\<close> on the startup database skips the check of the handler,
  the INTEGER affinity keeps the text as it is no number, the CHECK is true of a text, and
  the row is written. In arithmetic, as in \<^verbatim>\<open>SUM(cost * quantity)\<close>, the cell counts as
  the number it begins with: -5.
\<close>

theorem update_field_Quantity_stores_negative_text:
  "''Quantity'' \<notin> set [''quantity'', ''cost''] \<and>
   resolve_column ''Quantity'' = Some Cquantity \<and>
   update_field 1 ''Quantity'' ''-5abc'' initial_database =
     updated (rewrite_rows 1 (\<lambda>r. r\<lparr>quantity := SText ''-5abc''\<rparr>) initial_database) \<and>
   quantity (hd (shopping_list (snd (update_field 1 ''Quantity'' ''-5abc'' initial_database)))) =
     SText ''-5abc'' \<and>
   sql_ge0 (SText ''-5abc'') = Some True \<and>
   sql_numeric (SText ''-5abc'') = Some (NInt (- 5))"
proof -
  have s: "strip ''-5abc'' \<noteq> []" by code_simp
  have i: "int64 1" by (simp add: int64_def)
  have r: "resolve_column ''Quantity'' = Some Cquantity" by code_simp
  have a: "integer_affinity (SText ''-5abc'') = SText ''-5abc''" by code_simp
  have n: "sql_numeric (SText ''-5abc'') = Some (NInt (- 5))" by code_simp
  have u: "update_field 1 ''Quantity'' ''-5abc'' initial_database =
     updated (rewrite_rows 1 (\<lambda>r. r\<lparr>quantity := SText ''-5abc''\<rparr>) initial_database)"
    by (rule update_field_string [OF s i _ _ r])
       (simp_all add: a check_ge0_def Let_def del: integer_affinity.simps)
  from u r n show ?thesis by (simp add: updated_def hd_rewrite_initial)
qed


subsection \<open>The grouped list and its view\<close>

lemma groups_of_step:
  assumes "groups_of pre d"
  shows "groups_of (pre @ [it]) (dict_append (category it) it d)"
proof (cases "category it \<in> set (map fst d)")
  case True
  let ?g = "\<lambda>(k', vs). if k' = category it then (k', vs @ [it]) else (k', vs)"
  have keys: "map fst (map ?g d) = map fst d"
    by (induction d) auto
  have d1: "distinct (map fst (map ?g d))"
    using assms by (simp only: keys) (simp add: groups_of_def)
  have "fst ` set (map ?g d) = set (map fst (map ?g d))" by (simp only: set_map)
  also have "\<dots> = fst ` set d" by (simp only: keys) simp
  also have "\<dots> = category ` set (pre @ [it])"
    using assms True by (auto simp: groups_of_def)
  finally have d2: "fst ` set (map ?g d) = category ` set (pre @ [it])" .
  from assms have g3: "\<And>k xs. (k, xs) \<in> set d \<Longrightarrow> xs = filter (\<lambda>r. category r = k) pre"
    by (auto simp: groups_of_def)
  have d3: "\<forall>(k, xs)\<in>set (map ?g d). xs = filter (\<lambda>r. category r = k) (pre @ [it])"
  proof (clarify)
    fix k xs assume "(k, xs) \<in> set (map ?g d)"
    then obtain a b where ab: "(a, b) \<in> set d" "?g (a, b) = (k, xs)" by auto
    from g3 [OF ab(1)] ab(2) show "xs = filter (\<lambda>r. category r = k) (pre @ [it])"
      by (auto split: if_splits)
  qed
  from True d1 d2 d3 show ?thesis
    by (simp add: groups_of_def dict_append_def)
next
  case False
  from assms have g: "distinct (map fst d)" "fst ` set d = category ` set pre"
    "\<And>k xs. (k, xs) \<in> set d \<Longrightarrow> xs = filter (\<lambda>r. category r = k) pre"
    by (auto simp: groups_of_def)
  from False g(2) have fresh: "category it \<notin> category ` set pre" by simp
  then have e: "filter (\<lambda>r. category r = category it) pre = []"
    unfolding filter_empty_conv by (metis imageI)
  have d1: "distinct (map fst (d @ [(category it, [it])]))"
    using g(1) False by simp
  have d2: "fst ` set (d @ [(category it, [it])]) = category ` set (pre @ [it])"
    using g(2) by auto
  have d3: "\<forall>(k, xs)\<in>set (d @ [(category it, [it])]).
              xs = filter (\<lambda>r. category r = k) (pre @ [it])"
  proof (clarify)
    fix k xs assume m: "(k, xs) \<in> set (d @ [(category it, [it])])"
    show "xs = filter (\<lambda>r. category r = k) (pre @ [it])"
    proof (cases "(k, xs) \<in> set d")
      case True
      then have "k \<in> fst ` set d" by force
      with False have "category it \<noteq> k" by auto
      with g(3) [OF True] show ?thesis by simp
    next
      case False
      with m have "k = category it" "xs = [it]" by auto
      with e show ?thesis by simp
    qed
  qed
  from False d1 d2 d3 show ?thesis
    by (simp only: groups_of_def dict_append_def if_False)
qed

lemma groups_of_foldl:
  assumes "groups_of pre d"
  shows "groups_of (pre @ items) (foldl (\<lambda>categories it. dict_append (category it) it categories) d items)"
  using assms
proof (induction items arbitrary: pre d)
  case Nil
  then show ?case by simp
next
  case (Cons it items)
  from Cons.IH [OF groups_of_step [OF Cons.prems, of it]] show ?case by simp
qed

lemma groups_of_fetch:
  "groups_of (sort_key (\<lambda>r. (order_key (found r), category r, - row_id r)) (shopping_list db))
     (fetch_shopping_list db)"
proof -
  have "groups_of [] []" by (simp add: groups_of_def)
  from groups_of_foldl [OF this] show ?thesis
    by (simp add: fetch_shopping_list_def Let_def)
qed

lemma sorted_wrt_key_distinct:
  assumes "sorted (map f xs)" and "distinct (map g xs)"
  shows "sorted_wrt (\<lambda>a b. f a \<le> f b \<and> g a \<noteq> g b) xs"
  using assms by (induction xs) auto

lemma order_key_flags: "\<not> order_key (SInt 1) \<le> order_key (SInt 0)"
  by simp

lemma group_order:
  assumes "sorted (map (\<lambda>r. (order_key (found r), category r, - row_id r)) items)"
    and "distinct (map row_id items)"
  shows "sorted (map (\<lambda>r. (order_key (found r), - row_id r)) (filter (\<lambda>r. category r = k) items)) \<and>
         unfound_first_id_desc (filter (\<lambda>r. category r = k) items)"
proof -
  let ?K = "\<lambda>r. (order_key (found r), category r, - row_id r)"
  let ?xs = "filter (\<lambda>r. category r = k) items"
  from sorted_wrt_key_distinct [OF assms]
  have "sorted_wrt (\<lambda>a b. ?K a \<le> ?K b \<and> row_id a \<noteq> row_id b) ?xs"
    by (rule sorted_wrt_filter)
  then have s: "sorted_wrt (\<lambda>a b. (order_key (found a), - row_id a) \<le> (order_key (found b), - row_id b)
                  \<and> row_id a \<noteq> row_id b) ?xs"
    by (rule sorted_wrt_mono_rel [rotated]) auto
  from s have "sorted_wrt (\<lambda>a b. (order_key (found a), - row_id a) \<le> (order_key (found b), - row_id b)) ?xs"
    by (rule sorted_wrt_mono_rel [rotated]) auto
  then have a: "sorted (map (\<lambda>r. (order_key (found r), - row_id r)) ?xs)"
    by (simp add: sorted_map)
  from s have b: "unfound_first_id_desc ?xs"
    unfolding unfound_first_id_desc_def
    by (rule sorted_wrt_mono_rel [rotated]) auto
  from a b show ?thesis by blast
qed


lemma sorted_items_sorted:
  assumes "sorted_items xs = Inr ys"
    and "sorted (map (\<lambda>x. (order_key (found x), - row_id x)) xs)"
  shows "ys = xs"
proof -
  from assms(1) have "ys = sort_key (\<lambda>x. (order_key (found x), - row_id x)) xs"
    by (cases xs) (auto simp: sorted_items_def split: if_splits)
  with sort_key_id_if_sorted [OF assms(2)] show ?thesis by simp
qed

lemma category_items_same:
  assumes "category_items xs = Inr cs"
  shows "cs = xs"
  using assms
  by (induction xs arbitrary: cs) (auto split: option.splits sum.splits)

lemma mobile_cards_same:
  assumes "mobile_cards d = Inr secs"
    and "\<forall>(k, xs)\<in>set d. sorted (map (\<lambda>x. (order_key (found x), - row_id x)) xs)"
  shows "secs = d"
  using assms
proof (induction d arbitrary: secs)
  case Nil
  then show ?case by simp
next
  case (Cons p d)
  obtain k xs where p: "p = (k, xs)" by (cases p)
  from Cons.prems(1) p obtain si cs rest where
    r: "sorted_items xs = Inr si" "category_items si = Inr cs" "mobile_cards d = Inr rest"
       "secs = (k, cs) # rest"
    by (auto split: sum.splits)
  from Cons.prems(2) p have "sorted (map (\<lambda>x. (order_key (found x), - row_id x)) xs)" by simp
  with r(1) have "si = xs" by (rule sorted_items_sorted)
  moreover from r(2) have "cs = si" by (rule category_items_same)
  moreover from Cons.IH [OF r(3)] Cons.prems(2) have "rest = d" by simp
  ultimately show ?case using r(4) p by simp
qed

lemma sorted_items_total:
  assumes "list_all (\<lambda>r. py_kind (found r) = 1) xs"
  shows "sorted_items xs = Inr (sort_key (\<lambda>x. (order_key (found x), - row_id x)) xs)"
  using assms by (cases xs) (auto simp: sorted_items_def list_all_iff)

lemma category_items_total:
  assumes "list_all (\<lambda>r. format_cost (cost r) = None) xs"
  shows "category_items xs = Inr xs"
  using assms by (induction xs) auto

lemma mobile_cards_total:
  assumes "\<forall>(k, xs)\<in>set d. list_all (\<lambda>r. py_kind (found r) = 1 \<and> format_cost (cost r) = None) xs"
  shows "\<exists>secs. mobile_cards d = Inr secs"
  using assms
proof (induction d)
  case Nil
  then show ?case by simp
next
  case (Cons p d)
  obtain k xs where p: "p = (k, xs)" by (cases p)
  from Cons.prems p have g: "list_all (\<lambda>r. py_kind (found r) = 1) xs"
    "list_all (\<lambda>r. format_cost (cost r) = None) xs"
    by (auto simp: list_all_iff)
  from g(2) have "list_all (\<lambda>r. format_cost (cost r) = None)
                    (sort_key (\<lambda>x. (order_key (found x), - row_id x)) xs)"
    by (simp add: list_all_iff)
  then have c: "category_items (sort_key (\<lambda>x. (order_key (found x), - row_id x)) xs) =
                  Inr (sort_key (\<lambda>x. (order_key (found x), - row_id x)) xs)"
    by (rule category_items_total)
  from Cons.IH Cons.prems obtain rest where "mobile_cards d = Inr rest" by auto
  with p sorted_items_total [OF g(1)] c show ?case by simp
qed

lemma strict_sorted_keys:
  assumes "distinct (map fst d)"
  shows "sorted_wrt (<) (map fst (sort_key fst d))"
proof -
  have "mset (map fst (sort_key fst d)) = mset (map fst d)" by simp
  then have "distinct (map fst (sort_key fst d))"
    using assms by (metis mset_eq_imp_distinct_iff)
  moreover have "sorted (map fst (sort_key fst d))" by (rule sorted_sort_key)
  ultimately show ?thesis by (simp add: strict_sorted_iff)
qed

lemma initial_ids_distinct: "distinct (map row_id (shopping_list initial_database))"
  by (simp add: initial_database_def sample_items_def sample_row_def)

lemma initial_rows_typed:
  "list_all (\<lambda>r. py_kind (found r) = 1 \<and> format_cost (cost r) = None)
     (shopping_list initial_database)"
  by (simp add: initial_database_def sample_items_def sample_row_def)

lemma found_minus_one: "integer_affinity (SText ''-1'') = SInt (- 1)"
  by code_simp

lemma fetch_after_found_minus_one:
  "map (\<lambda>r. (row_id r, found r, py_bool (found r)))
     (the (map_of (fetch_shopping_list
                     (rewrite_rows 2 (\<lambda>r. r\<lparr>found := SInt (- 1)\<rparr>) initial_database))
             ''Spray Equipment'')) =
   [(2, SInt (- 1), True), (5, SInt 0, False), (4, SInt 0, False), (3, SInt 0, False),
    (1, SInt 0, False)]"
  by code_simp

text \<open>
  Claim C7, as the code has it. For a table whose ids are distinct (\<^verbatim>\<open>id\<close> is the primary
  key), \<^verbatim>\<open>fetch_shopping_list\<close> partitions the stored items into a dict with one key for
  each category, no list empty, each list holding exactly the stored items of its
  category. Within a list the items are in ascending order of their \<^verbatim>\<open>found\<close> value, as
  SQLite orders values, and items with the same \<^verbatim>\<open>found\<close> value in descending order of
  id; so no item with flag 1 stands before an item with flag 0. When \<^verbatim>\<open>ShoppingTable\<close>
  returns a view of this dict, it is the placeholder for an empty list and otherwise the
  sections of the dict in ascending order of the category name (the order of strings by
  character code), each with its items in the order of the dict. It returns a view
  whenever every \<^verbatim>\<open>found\<close> cell is a number and no \<^verbatim>\<open>cost\<close> cell is a text or NULL.
\<close>

theorem fetch_shopping_list_grouped_and_ordered:
  assumes "distinct (map row_id (shopping_list db))"
  shows
   "distinct (map fst (fetch_shopping_list db)) \<and>
    (\<forall>r\<in>set (shopping_list db). category r \<in> fst ` set (fetch_shopping_list db)) \<and>
    (\<forall>(k, xs)\<in>set (fetch_shopping_list db).
        xs \<noteq> [] \<and>
        mset xs = filter_mset (\<lambda>r. category r = k) (mset (shopping_list db)) \<and>
        sorted (map (\<lambda>r. (order_key (found r), - row_id r)) xs) \<and>
        unfound_first_id_desc xs) \<and>
    (\<forall>frag. ShoppingTable (fetch_shopping_list db) = Inr frag \<longrightarrow>
        frag = (if shopping_list db = [] then EmptyState
                else ShoppingList (sort_key fst (fetch_shopping_list db)))) \<and>
    sorted_wrt (<) (map fst (sort_key fst (fetch_shopping_list db))) \<and>
    (list_all (\<lambda>r. py_kind (found r) = 1 \<and> format_cost (cost r) = None) (shopping_list db) \<longrightarrow>
        (\<exists>frag. ShoppingTable (fetch_shopping_list db) = Inr frag))"
proof -
  let ?K = "\<lambda>r. (order_key (found r), category r, - row_id r)"
  let ?items = "sort_key ?K (shopping_list db)"
  let ?d = "fetch_shopping_list db"
  have g: "groups_of ?items ?d" by (rule groups_of_fetch)
  then have dk: "distinct (map fst ?d)" and im: "fst ` set ?d = category ` set (shopping_list db)"
    and gr: "\<And>k xs. (k, xs) \<in> set ?d \<Longrightarrow> xs = filter (\<lambda>r. category r = k) ?items"
    by (auto simp: groups_of_def)
  have si: "sorted (map ?K ?items)" by (rule sorted_sort_key)
  have "mset (map row_id ?items) = mset (map row_id (shopping_list db))" by simp
  from mset_eq_imp_distinct_iff [OF this] assms have di: "distinct (map row_id ?items)"
    by blast
  have groups: "xs \<noteq> [] \<and>
        mset xs = filter_mset (\<lambda>r. category r = k) (mset (shopping_list db)) \<and>
        sorted (map (\<lambda>r. (order_key (found r), - row_id r)) xs) \<and>
        unfound_first_id_desc xs" if m: "(k, xs) \<in> set ?d" for k xs
  proof -
    note x = gr [OF m]
    from m have "k \<in> fst ` set ?d" by force
    with im obtain r where "r \<in> set (shopping_list db)" "category r = k" by auto
    then have "r \<in> set (filter (\<lambda>r. category r = k) ?items)" by simp
    then have "r \<in> set xs" by (simp only: x [symmetric])
    then have ne: "xs \<noteq> []" by (cases xs) simp_all
    have "mset (filter (\<lambda>r. category r = k) ?items) =
            filter_mset (\<lambda>r. category r = k) (mset (shopping_list db))"
      by (simp only: mset_filter mset_sort)
    then have ms: "mset xs = filter_mset (\<lambda>r. category r = k) (mset (shopping_list db))"
      by (simp only: x [symmetric])
    from group_order [OF si di, of k] have
      "sorted (map (\<lambda>r. (order_key (found r), - row_id r)) xs) \<and> unfound_first_id_desc xs"
      by (simp only: x [symmetric])
    with ne ms show ?thesis by blast
  qed
  have "set ?d = {} \<longleftrightarrow> fst ` set ?d = {}" by simp
  also have "\<dots> \<longleftrightarrow> category ` set (shopping_list db) = {}" by (simp only: im)
  also have "\<dots> \<longleftrightarrow> set (shopping_list db) = {}" by simp
  finally have "set ?d = {} \<longleftrightarrow> set (shopping_list db) = {}" .
  then have empty: "?d = [] \<longleftrightarrow> shopping_list db = []"
    by (simp only: set_empty)
  have sorted_groups: "\<forall>(k, xs)\<in>set (sort_key fst ?d).
          sorted (map (\<lambda>x. (order_key (found x), - row_id x)) xs)"
  proof (clarify)
    fix k xs assume "(k, xs) \<in> set (sort_key fst ?d)"
    then have "(k, xs) \<in> set ?d" by simp
    from groups [OF this] show "sorted (map (\<lambda>x. (order_key (found x), - row_id x)) xs)"
      by blast
  qed
  have render: "frag = (if shopping_list db = [] then EmptyState
                else ShoppingList (sort_key fst ?d))" if "ShoppingTable ?d = Inr frag" for frag
  proof (cases "?d = []")
    case True
    with that empty show ?thesis by (simp add: ShoppingTable_def)
  next
    case False
    with that obtain secs where s: "mobile_cards (sort_key fst ?d) = Inr secs"
      "frag = ShoppingList secs"
      by (auto simp: ShoppingTable_def split: sum.splits)
    from mobile_cards_same [OF s(1) sorted_groups] s(2) False empty show ?thesis by simp
  qed
  have total: "\<exists>frag. ShoppingTable ?d = Inr frag"
    if ok: "list_all (\<lambda>r. py_kind (found r) = 1 \<and> format_cost (cost r) = None) (shopping_list db)"
  proof -
    have "\<forall>(k, xs)\<in>set (sort_key fst ?d).
            list_all (\<lambda>r. py_kind (found r) = 1 \<and> format_cost (cost r) = None) xs"
    proof (clarify)
      fix k xs assume "(k, xs) \<in> set (sort_key fst ?d)"
      then have "(k, xs) \<in> set ?d" by simp
      from gr [OF this] ok
      show "list_all (\<lambda>r. py_kind (found r) = 1 \<and> format_cost (cost r) = None) xs"
        by (simp add: list_all_iff)
    qed
    from mobile_cards_total [OF this] show ?thesis
      by (auto simp: ShoppingTable_def)
  qed
  show ?thesis
  proof (intro conjI)
    show "distinct (map fst ?d)" by (rule dk)
    show "\<forall>r\<in>set (shopping_list db). category r \<in> fst ` set ?d"
      by (simp only: im) blast
    show "\<forall>(k, xs)\<in>set ?d.
        xs \<noteq> [] \<and>
        mset xs = filter_mset (\<lambda>r. category r = k) (mset (shopping_list db)) \<and>
        sorted (map (\<lambda>r. (order_key (found r), - row_id r)) xs) \<and>
        unfound_first_id_desc xs"
    proof (clarify)
      fix k xs assume "(k, xs) \<in> set ?d"
      from groups [OF this] show "xs \<noteq> [] \<and>
        mset xs = filter_mset (\<lambda>r. category r = k) (mset (shopping_list db)) \<and>
        sorted (map (\<lambda>r. (order_key (found r), - row_id r)) xs) \<and>
        unfound_first_id_desc xs" .
    qed
    show "\<forall>frag. ShoppingTable ?d = Inr frag \<longrightarrow>
        frag = (if shopping_list db = [] then EmptyState
                else ShoppingList (sort_key fst ?d))"
      using render by blast
    show "sorted_wrt (<) (map fst (sort_key fst ?d))" by (rule strict_sorted_keys [OF dk])
    show "list_all (\<lambda>r. py_kind (found r) = 1 \<and> format_cost (cost r) = None) (shopping_list db) \<longrightarrow>
        (\<exists>frag. ShoppingTable ?d = Inr frag)"
      using total by blast
  qed
qed

theorem fetch_shopping_list_grouped_and_ordered_witness:
  "distinct (map row_id (shopping_list initial_database)) \<and>
   distinct (map fst (fetch_shopping_list initial_database)) \<and>
   sorted_wrt (<) (map fst (sort_key fst (fetch_shopping_list initial_database))) \<and>
   (\<exists>frag. ShoppingTable (fetch_shopping_list initial_database) = Inr frag)"
proof -
  note t = fetch_shopping_list_grouped_and_ordered [OF initial_ids_distinct]
  from t have a: "distinct (map fst (fetch_shopping_list initial_database))"
    by (rule conjunct1)
  from t have b: "sorted_wrt (<) (map fst (sort_key fst (fetch_shopping_list initial_database)))"
    by (elim conjE)
  from t initial_rows_typed
  have c: "\<exists>frag. ShoppingTable (fetch_shopping_list initial_database) = Inr frag"
    by (elim conjE) (rule mp)
  from initial_ids_distinct a b c show ?thesis by (intro conjI)
qed

text \<open>
  The claim as the specification states it has every unfound item before every found
  one. The order is by the value of \<^verbatim>\<open>found\<close>, and \<^verbatim>\<open>update_field\<close> stores values other
  than 0 and 1: after \<^verbatim>\<open>POST /update/2/found\<close> with the value \<^verbatim>\<open>-1\<close> on the startup
  database, item 2 has the flag -1, which is true for Python, so that its card is checked
  and has the class \<^verbatim>\<open>found-item\<close>; it is the first of its category, before the four
  unfound items.
\<close>

theorem found_item_first_counterexample:
  "strip ''-1'' \<noteq> [] \<and>
   map (\<lambda>r. (row_id r, found r, py_bool (found r)))
     (the (map_of (fetch_shopping_list (snd (update_field 2 ''found'' ''-1'' initial_database)))
             ''Spray Equipment'')) =
   [(2, SInt (- 1), True), (5, SInt 0, False), (4, SInt 0, False), (3, SInt 0, False),
    (1, SInt 0, False)]"
proof -
  have s: "strip ''-1'' \<noteq> []" by code_simp
  have i: "int64 2" by (simp add: int64_def)
  have "update_field 2 ''found'' ''-1'' initial_database =
          updated (rewrite_rows 2 (\<lambda>r. r\<lparr>found := integer_affinity (SText ''-1'')\<rparr>)
                     initial_database)"
    by (rule update_field_string [OF s i _ _ resolve_known(5)]) simp_all
  then have "snd (update_field 2 ''found'' ''-1'' initial_database) =
          rewrite_rows 2 (\<lambda>r. r\<lparr>found := SInt (- 1)\<rparr>) initial_database"
    by (simp only: updated_def snd_conv found_minus_one)
  with s fetch_after_found_minus_one show ?thesis by (simp only:) simp
qed

end
